theory Spec2Isabelle
  imports Main "HOL-Library.Word" "HOL-Library.Monad_Syntax"
begin

section \<open>JavaScript values\<close>

text \<open>
  A JavaScript string is a sequence of 16-bit code units; \<open>s.length\<close> counts them and
  \<open>s.trim()\<close> removes the code units of the ECMAScript classes WhiteSpace and
  LineTerminator from both ends. \<open>ustr\<close> embeds an ASCII literal.
\<close>

type_synonym jschar = "16 word"
type_synonym jsstring = "jschar list"

definition ustr :: "string \<Rightarrow> jsstring" where
  "ustr s = map of_char s"

text \<open>
  The values a JSON request body can put into a field, restricted to the primitives:
  \<open>JUndefined\<close> is an absent property. A number is an integer from \<open>- 2^53\<close> to
  \<open>2^53 - 1\<close>, the signed value \<open>sint w\<close> of a 54-bit word: each of them is a double,
  and its conversion to a string is its decimal numeral. Fractions and numbers beyond
  that range are not values of the model.
\<close>

datatype jsval = JUndefined | JNull | JBool bool | JNum "54 word" | JStr jsstring

text \<open>
  A JavaScript number that is the result of \<open>parseInt\<close>: an integer that is a double,
  \<open>NaN\<close>, or an infinity. JSON has only the first: the others are sent as null.
\<close>

datatype jsnum = NaN | Num int | PosInfinity | NegInfinity

fun truthy :: "jsval \<Rightarrow> bool" where
  "truthy JUndefined = False"
| "truthy JNull = False"
| "truthy (JBool b) = b"
| "truthy (JNum w) = (w \<noteq> 0)"
| "truthy (JStr s) = (s \<noteq> [])"

definition is_ws :: "jschar \<Rightarrow> bool" where
  "is_ws c = (c = 0x09 \<or> c = 0x0A \<or> c = 0x0B \<or> c = 0x0C \<or> c = 0x0D \<or> c = 0x20
     \<or> c = 0xA0 \<or> c = 0x1680 \<or> (0x2000 \<le> c \<and> c \<le> 0x200A) \<or> c = 0x2028 \<or> c = 0x2029
     \<or> c = 0x202F \<or> c = 0x205F \<or> c = 0x3000 \<or> c = 0xFEFF)"

definition trim :: "jsstring \<Rightarrow> jsstring" where
  "trim s = rev (dropWhile is_ws (rev (dropWhile is_ws s)))"

text \<open>
  \<open>v.length > n\<close> for a truthy \<open>v\<close>: a string compares its length; a boolean or a
  number has no \<open>length\<close> property, and \<open>undefined > n\<close> is false. (The handlers read
  \<open>length\<close> of truthy values only, so the property read never throws.)
\<close>

fun length_gt :: "jsval \<Rightarrow> nat \<Rightarrow> bool" where
  "length_gt (JStr s) n = (n < length s)"
| "length_gt _ n = False"

text \<open>
  \<open>v.trim()\<close>: only a string has the method; on any other truthy primitive the call
  throws a TypeError, which is the value \<open>None\<close>.
\<close>

fun js_trim :: "jsval \<Rightarrow> jsstring option" where
  "js_trim (JStr s) = Some (trim s)"
| "js_trim _ = None"

subsection \<open>parseInt\<close>

text \<open>
  \<open>parseInt(v)\<close> with no radix: the argument is converted to a string, leading white
  space is skipped, a sign is read, a prefix \<open>0x\<close>/\<open>0X\<close> selects radix 16 (otherwise 10),
  and the longest run of digits is read as an integer; no digit gives \<open>NaN\<close>. The
  result is the Number for that integer: the nearest double, a tie going to the even
  mantissa, and an infinity from \<open>2^1024 - 2^970\<close> on.
\<close>

definition digit_val :: "jschar \<Rightarrow> nat option" where
  "digit_val c =
     (if 0x30 \<le> c \<and> c \<le> 0x39 then Some (unat c - 48)
      else if 0x61 \<le> c \<and> c \<le> 0x7A then Some (unat c - 87)
      else if 0x41 \<le> c \<and> c \<le> 0x5A then Some (unat c - 55)
      else None)"

definition is_digit :: "nat \<Rightarrow> jschar \<Rightarrow> bool" where
  "is_digit R c = (case digit_val c of None \<Rightarrow> False | Some d \<Rightarrow> d < R)"

text \<open>The integer that a run of digits denotes in radix \<open>R\<close>, exactly.\<close>

definition digits_value :: "nat \<Rightarrow> jsstring \<Rightarrow> nat" where
  "digits_value R z = foldl (\<lambda>acc c. acc * R + (case digit_val c of None \<Rightarrow> 0 | Some d \<Rightarrow> d)) 0 z"

text \<open>The number of binary digits of \<open>n\<close>.\<close>

fun bit_length :: "nat \<Rightarrow> nat" where
  "bit_length n = (if n = 0 then 0 else Suc (bit_length (n div 2)))"

text \<open>
  The double nearest to a natural number, as a natural number; \<open>None\<close> is the overflow
  to infinity. Up to 53 binary digits the number is a double itself; beyond, the digits
  after the 53rd are rounded off.
\<close>

definition to_number :: "nat \<Rightarrow> nat option" where
  "to_number n =
     (let b = bit_length n in
      if b \<le> 53 then Some n
      else
        (let e = b - 53;
             q = n div 2 ^ e;
             r = n mod 2 ^ e;
             half = 2 ^ (e - 1);
             q' = (if half < r \<or> (r = half \<and> odd q) then q + 1 else q);
             v = q' * 2 ^ e
         in if 2 ^ 1024 \<le> v then None else Some v))"

definition parseInt_string :: "jsstring \<Rightarrow> jsnum" where
  "parseInt_string input =
     (let s = dropWhile is_ws input;
          neg = (case s of [] \<Rightarrow> False | c # _ \<Rightarrow> c = 0x2D);
          s1 = (case s of [] \<Rightarrow> [] | c # cs \<Rightarrow> if c = 0x2B \<or> c = 0x2D then cs else s);
          hex = (case s1 of a # b # _ \<Rightarrow> a = 0x30 \<and> (b = 0x78 \<or> b = 0x58) | _ \<Rightarrow> False);
          R = (if hex then 16 else 10);
          s2 = (if hex then drop 2 s1 else s1);
          z = takeWhile (is_digit R) s2
      in if z = [] then NaN
         else case to_number (digits_value R z) of
                None \<Rightarrow> if neg then NegInfinity else PosInfinity
              | Some v \<Rightarrow> Num ((if neg then - 1 else 1) * int v))"

text \<open>
  The strings \<open>undefined\<close>, \<open>null\<close>, \<open>true\<close> and \<open>false\<close> start with no digit; the decimal
  numeral of an integer of the model's range reads back as the integer.
\<close>

fun parseInt :: "jsval \<Rightarrow> jsnum" where
  "parseInt JUndefined = NaN"
| "parseInt JNull = NaN"
| "parseInt (JBool b) = NaN"
| "parseInt (JNum w) = Num (sint w)"
| "parseInt (JStr s) = parseInt_string s"

section \<open>The greetings table\<close>

text \<open>
  The store is the table \<open>greetings\<close> behind the Supabase client: a map from the primary
  key \<open>id\<close> to the row's other columns, the ones the handlers insert and select.
  \<open>created_at\<close> is assigned by the store (\<open>DEFAULT now()\<close>). The setup script declares
  \<open>id TEXT PRIMARY KEY\<close>; it declares no column \<open>day_index\<close>, and a table without that
  column fails every call of the handlers, which is the case \<open>db_up = False\<close> below.
  The day index is one of the optional fields of a greeting: the store keeps a row
  whose \<open>day_index\<close> is null, which is a \<open>row_day_index\<close> other than \<open>Num n\<close> here.
\<close>

record greeting =
  row_sender :: jsstring
  row_receiver :: jsstring
  row_message :: jsstring
  row_day_index :: jsnum
  created_at :: nat

type_synonym store = "jsstring \<rightharpoonup> greeting"

text \<open>The object the create handler passes to \<open>insert\<close>.\<close>

record new_row =
  new_id :: jsstring
  new_sender :: jsstring
  new_receiver :: jsstring
  new_message :: jsstring
  new_day_index :: jsnum

text \<open>
  What lies outside the handlers: the identifier \<open>nanoid\<close> draws, whether the store
  carries out the call (\<open>db_up\<close>; false stands for any failure of the service other
  than the ones modelled), and the store's clock.
\<close>

record env =
  nanoid :: jsstring
  db_up :: bool
  now :: nat

datatype db_error = PGRST116 | UniqueViolation | StoreFailure

datatype db_op = Insert new_row | Select jsstring

text \<open>
  \<open>insert\<close> adds one row; the primary key refuses a second row with the same \<open>id\<close>.
\<close>

definition db_insert :: "env \<Rightarrow> store \<Rightarrow> new_row \<Rightarrow> db_error + store" where
  "db_insert e st r =
     (if \<not> db_up e then Inl StoreFailure
      else if st (new_id r) \<noteq> None then Inl UniqueViolation
      else Inr (st(new_id r \<mapsto>
             \<lparr>row_sender = new_sender r, row_receiver = new_receiver r,
              row_message = new_message r, row_day_index = new_day_index r,
              created_at = now e\<rparr>)))"

text \<open>
  \<open>select(...).eq('id', id).single()\<close> answers with the pair \<open>(data, error)\<close>: no row
  is the error \<open>PGRST116\<close>.
\<close>

definition db_select_single :: "env \<Rightarrow> store \<Rightarrow> jsstring \<Rightarrow> greeting option \<times> db_error option" where
  "db_select_single e st i =
     (if \<not> db_up e then (None, Some StoreFailure)
      else case st i of
             None \<Rightarrow> (None, Some PGRST116)
           | Some g \<Rightarrow> (Some g, None))"

section \<open>Requests and responses\<close>

record body =
  sender :: jsval
  receiver :: jsval
  message :: jsval
  day_index :: jsval

text \<open>
  The four properties the create handler reads from \<open>req.body\<close>; a body that is no
  object has them all undefined. \<open>req_body = None\<close> is a request without a parsed body
  (\<open>req.body\<close> undefined or null), where the destructuring throws. \<open>query_id\<close> is
  \<open>req.query.id\<close>, a string or absent.
\<close>

record request =
  req_method :: string
  x_forwarded_proto :: "jsstring option"
  host :: "jsstring option"
  req_body :: "body option"
  query_id :: "jsstring option"

datatype resp_body =
    ErrorOnly string
  | ErrorMessage string string
  | Created jsstring jsstring
  | Data greeting

record response =
  status :: nat
  json :: resp_body
  cache_control :: "string option"

text \<open>What a handler call leaves: the response, the store, and the calls made to the store.\<close>

record outcome =
  resp :: response
  store_after :: store
  db_log :: "db_op list"

definition reply :: "nat \<Rightarrow> resp_body \<Rightarrow> store \<Rightarrow> db_op list \<Rightarrow> outcome" where
  "reply code b st ops =
     \<lparr>resp = \<lparr>status = code, json = b, cache_control = None\<rparr>, store_after = st, db_log = ops\<rparr>"

section \<open>POST /api/create\<close>

definition MAX_NAME_LENGTH :: nat where
  "MAX_NAME_LENGTH = 100"

definition MAX_MESSAGE_LENGTH :: nat where
  "MAX_MESSAGE_LENGTH = 500"

definition ID_LENGTH :: nat where
  "ID_LENGTH = 8"

text \<open>
  The argument of \<open>insert\<close>, evaluated field by field before the call; a \<open>trim\<close> that
  throws leaves \<open>None\<close>.
\<close>

definition insert_arg :: "jsstring \<Rightarrow> body \<Rightarrow> new_row option" where
  "insert_arg i b = do {
     s \<leftarrow> js_trim (sender b);
     r \<leftarrow> js_trim (receiver b);
     m \<leftarrow> (if truthy (message b) then js_trim (message b) else Some []);
     Some \<lparr>new_id = i, new_sender = s, new_receiver = r, new_message = m,
           new_day_index = (if day_index b \<noteq> JUndefined then parseInt (day_index b) else Num 0)\<rparr>
   }"

text \<open>\<open>`${protocol}://${host}/?id=${id}`\<close>; an absent \<open>host\<close> header prints as \<open>undefined\<close>.\<close>

definition share_url :: "request \<Rightarrow> jsstring \<Rightarrow> jsstring" where
  "share_url req i =
     (let protocol = (case x_forwarded_proto req of
                        None \<Rightarrow> ustr ''https''
                      | Some p \<Rightarrow> if p = [] then ustr ''https'' else p);
          h = (case host req of None \<Rightarrow> ustr ''undefined'' | Some x \<Rightarrow> x)
      in protocol @ ustr ''://'' @ h @ ustr ''/?id='' @ i)"

definition server_error :: "store \<Rightarrow> outcome" where
  "server_error st =
     reply 500 (ErrorMessage ''Server error'' ''An unexpected error occurred'') st []"

definition create_handler :: "env \<Rightarrow> request \<Rightarrow> store \<Rightarrow> outcome" where
  "create_handler e req st =
     (if req_method req \<noteq> ''POST'' then reply 405 (ErrorOnly ''Method not allowed'') st []
      else case req_body req of
        None \<Rightarrow> server_error st
      | Some b \<Rightarrow>
          if \<not> truthy (sender b) \<or> \<not> truthy (receiver b) then
            reply 400 (ErrorMessage ''Missing required fields''
                         ''Both sender and receiver names are required'') st []
          else if length_gt (sender b) MAX_NAME_LENGTH then
            reply 400 (ErrorMessage ''Validation error''
                         ''Sender name must be 100 characters or less'') st []
          else if length_gt (receiver b) MAX_NAME_LENGTH then
            reply 400 (ErrorMessage ''Validation error''
                         ''Receiver name must be 100 characters or less'') st []
          else if truthy (message b) \<and> length_gt (message b) MAX_MESSAGE_LENGTH then
            reply 400 (ErrorMessage ''Validation error''
                         ''Message must be 500 characters or less'') st []
          else
            (let i = nanoid e in
             case insert_arg i b of
               None \<Rightarrow> server_error st
             | Some r \<Rightarrow>
                 (case db_insert e st r of
                    Inl dbError \<Rightarrow>
                      reply 500 (ErrorMessage ''Database error'' ''Failed to save greeting'')
                        st [Insert r]
                  | Inr st' \<Rightarrow>
                      reply 201 (Created i (share_url req i)) st' [Insert r])))"

section \<open>GET /api/get\<close>

text \<open>The identifier passes \<open>/^[a-zA-Z0-9_-]+$/\<close>.\<close>

definition is_id_char :: "jschar \<Rightarrow> bool" where
  "is_id_char c = ((0x61 \<le> c \<and> c \<le> 0x7A) \<or> (0x41 \<le> c \<and> c \<le> 0x5A)
     \<or> (0x30 \<le> c \<and> c \<le> 0x39) \<or> c = 0x5F \<or> c = 0x2D)"

definition id_regex_test :: "jsstring \<Rightarrow> bool" where
  "id_regex_test i = (i \<noteq> [] \<and> list_all is_id_char i)"

definition get_handler :: "env \<Rightarrow> request \<Rightarrow> store \<Rightarrow> outcome" where
  "get_handler e req st =
     (if req_method req \<noteq> ''GET'' then reply 405 (ErrorOnly ''Method not allowed'') st []
      else case query_id req of
        None \<Rightarrow> reply 400 (ErrorMessage ''Missing ID'' ''Greeting ID is required'') st []
      | Some i \<Rightarrow>
          if i = [] then
            reply 400 (ErrorMessage ''Missing ID'' ''Greeting ID is required'') st []
          else if \<not> id_regex_test i then
            reply 400 (ErrorMessage ''Invalid ID'' ''Greeting ID contains invalid characters'')
              st []
          else
            (case db_select_single e st i of
               (d, Some dbError) \<Rightarrow>
                 if dbError = PGRST116 then
                   reply 404 (ErrorMessage ''Not found'' ''Greeting not found'') st [Select i]
                 else
                   reply 500 (ErrorMessage ''Database error'' ''Failed to fetch greeting'')
                     st [Select i]
             | (None, None) \<Rightarrow>
                 reply 404 (ErrorMessage ''Not found'' ''Greeting not found'') st [Select i]
             | (Some g, None) \<Rightarrow>
                 \<lparr>resp = \<lparr>status = 200, json = Data g,
                          cache_control = Some ''s-maxage=3600, stale-while-revalidate''\<rparr>,
                  store_after = st, db_log = [Select i]\<rparr>))"

text \<open>What \<open>nanoid(ID_LENGTH)\<close> returns: \<open>ID_LENGTH\<close> symbols of its URL-safe alphabet.\<close>

definition nanoid_ok :: "jsstring \<Rightarrow> bool" where
  "nanoid_ok i = (length i = ID_LENGTH \<and> list_all is_id_char i)"

text \<open>
  The character set as the specification words it, "alphanumeric/dash": letters, digits
  and the dash. It is compared with \<open>is_id_char\<close>, the set of the handler's pattern.
\<close>

definition alphanumeric_or_dash :: "jschar \<Rightarrow> bool" where
  "alphanumeric_or_dash c = ((0x61 \<le> c \<and> c \<le> 0x7A) \<or> (0x41 \<le> c \<and> c \<le> 0x5A)
     \<or> (0x30 \<le> c \<and> c \<le> 0x39) \<or> c = 0x2D)"

section \<open>The frontend loader\<close>

text \<open>
  The part of the page \<open>init\<close> acts on: whether the element \<open>createForm\<close> exists, its
  \<open>style.display\<close>, the class \<open>modal-open\<close> on the body, the alerts raised, what
  \<open>populateGreeting\<close> and \<open>populateDayContent\<close> were last called with, and the
  callbacks \<open>setTimeout\<close> holds with their delays in milliseconds.
\<close>

record greeting_data =
  data_sender :: jsval
  data_receiver :: jsval
  data_day_index :: jsval

datatype callback = ShowCreateForm

record page =
  form_present :: bool
  form_display :: string
  modal_open :: bool
  alerts :: nat
  populated :: "greeting_data option"
  day_content :: "jsval option"
  timers :: "(nat \<times> callback) list"

text \<open>
  What \<open>fetch\<close> of \<open>/api/get\<close> answers: it rejects (a network error), or gives a
  response with a status and a body that is no JSON, a falsy JSON value, or an object.
\<close>

datatype json_payload = InvalidJson | FalsyJson | TruthyJson greeting_data

datatype fetch_result = NetworkError | HttpResponse nat json_payload

text \<open>
  The browser around the loader: \<open>window.location.protocol\<close>, the \<open>id\<close> parameter
  of the URL (\<open>None\<close> when \<open>URLSearchParams.get\<close> gives null), the answer of the fetch,
  the global \<open>config\<close> (\<open>None\<close> when undefined; otherwise whether \<open>config.days[i]\<close> is
  truthy), and whether \<open>populateDayContent\<close> is a function.
\<close>

record browser =
  protocol :: string
  id_param :: "jsstring option"
  fetched :: fetch_result
  config_days :: "(jsval \<Rightarrow> bool) option"
  has_populateDayContent :: bool

definition showCreateForm :: "page \<Rightarrow> page" where
  "showCreateForm pg =
     (if form_present pg then pg\<lparr>form_display := ''flex'', modal_open := True\<rparr> else pg)"

definition hideCreateForm :: "page \<Rightarrow> page" where
  "hideCreateForm pg =
     (if form_present pg then pg\<lparr>form_display := ''none'', modal_open := False\<rparr> else pg)"

text \<open>\<open>response.ok\<close>: a status from 200 to 299.\<close>

definition response_ok :: "nat \<Rightarrow> bool" where
  "response_ok s = (200 \<le> s \<and> s \<le> 299)"

text \<open>
  \<open>fetchGreeting\<close> returns null (\<open>None\<close>) on a 404, and from its \<open>catch\<close> on every
  other failure: a rejected fetch, the error thrown for another status, a body that
  does not parse. A falsy JSON value is returned as it is, and \<open>init\<close> tests it.
\<close>

definition fetchGreeting :: "fetch_result \<Rightarrow> json_payload option" where
  "fetchGreeting f =
     (case f of
        NetworkError \<Rightarrow> None
      | HttpResponse s p \<Rightarrow>
          if \<not> response_ok s then (if s = 404 then None else None)
          else (case p of InvalidJson \<Rightarrow> None | _ \<Rightarrow> Some p))"

definition init :: "browser \<Rightarrow> page \<Rightarrow> page" where
  "init br pg =
     (if protocol br = ''file:'' then pg\<lparr>alerts := alerts pg + 1\<rparr>
      else case id_param br of
        Some (c # cs) \<Rightarrow>
          (let pg1 = hideCreateForm pg in
           case fetchGreeting (fetched br) of
             Some (TruthyJson d) \<Rightarrow>
               (let pg2 = pg1\<lparr>populated := Some d\<rparr> in
                case config_days br of
                  Some days \<Rightarrow>
                    if data_day_index d \<noteq> JUndefined \<and> days (data_day_index d)
                       \<and> has_populateDayContent br
                    then pg2\<lparr>day_content := Some (data_day_index d)\<rparr>
                    else pg2
                | None \<Rightarrow> pg2)
           | _ \<Rightarrow> pg1)
      | _ \<Rightarrow> pg\<lparr>timers := timers pg @ [(100, ShowCreateForm)]\<rparr>)"

text \<open>The page once every pending timer has fired.\<close>

fun run_callback :: "callback \<Rightarrow> page \<Rightarrow> page" where
  "run_callback ShowCreateForm pg = showCreateForm pg"

definition run_timers :: "page \<Rightarrow> page" where
  "run_timers pg = foldl (\<lambda>p t. run_callback (snd t) p) (pg\<lparr>timers := []\<rparr>) (timers pg)"

definition page_load :: "browser \<Rightarrow> page \<Rightarrow> page" where
  "page_load br pg = run_timers (init br pg)"

definition form_shown :: "page \<Rightarrow> bool" where
  "form_shown pg = (form_present pg \<and> form_display pg = ''flex'')"

section \<open>Concrete requests\<close>

text \<open>Requests, environments and pages to run the handlers and the loader on.\<close>

definition post_request :: "body \<Rightarrow> request" where
  "post_request b = \<lparr>req_method = ''POST'', x_forwarded_proto = None,
     host = Some (ustr ''example.com''), req_body = Some b, query_id = None\<rparr>"


definition get_request :: "jsstring option \<Rightarrow> request" where
  "get_request i = \<lparr>req_method = ''GET'', x_forwarded_proto = None,
     host = Some (ustr ''example.com''), req_body = None, query_id = i\<rparr>"

definition demo_env :: env where
  "demo_env = \<lparr>nanoid = ustr ''V1StGXR8'', db_up = True, now = 0\<rparr>"

definition later_env :: env where
  "later_env = \<lparr>nanoid = ustr ''x_9-Kq2Z'', db_up = True, now = 1\<rparr>"

definition names_body :: "jsval \<Rightarrow> jsval \<Rightarrow> body" where
  "names_body s r = \<lparr>sender = s, receiver = r, message = JUndefined, day_index = JUndefined\<rparr>"

definition padded_body :: body where
  "padded_body = \<lparr>sender = JStr (ustr '' Ann''), receiver = JStr (ustr ''Bob''),
     message = JStr (ustr ''hello''), day_index = JUndefined\<rparr>"

definition null_day_body :: body where
  "null_day_body = \<lparr>sender = JStr (ustr ''Ann''), receiver = JStr (ustr ''Bob''),
     message = JUndefined, day_index = JNull\<rparr>"

definition message_body :: "nat \<Rightarrow> body" where
  "message_body n = \<lparr>sender = JStr (ustr ''Ann''), receiver = JStr (ustr ''Bob''),
     message = JStr (replicate n 0x61), day_index = JUndefined\<rparr>"

definition ann_row :: greeting where
  "ann_row = \<lparr>row_sender = ustr ''Ann'', row_receiver = ustr ''Bob'', row_message = [],
     row_day_index = Num 0, created_at = 0\<rparr>"

definition blank_page :: page where
  "blank_page = \<lparr>form_present = True, form_display = [], modal_open = False, alerts = 0,
     populated = None, day_content = None, timers = []\<rparr>"

definition plain_browser :: "string \<Rightarrow> jsstring option \<Rightarrow> fetch_result \<Rightarrow> browser" where
  "plain_browser p i f = \<lparr>protocol = p, id_param = i, fetched = f,
     config_days = None, has_populateDayContent = False\<rparr>"

section \<open>Properties of the handlers\<close>

lemma reply_simps:
  "resp (reply c b st ops) = \<lparr>status = c, json = b, cache_control = None\<rparr>"
  "store_after (reply c b st ops) = st"
  "db_log (reply c b st ops) = ops"
  by (simp_all add: reply_def)

lemma length_trim_le: "length (trim s) \<le> length s"
proof -
  have "length (dropWhile is_ws (rev (dropWhile is_ws s))) \<le> length (rev (dropWhile is_ws s))"
    by (rule length_dropWhile_le)
  also have "\<dots> \<le> length s" by (simp add: length_dropWhile_le)
  finally show ?thesis by (simp add: trim_def)
qed

lemma trim_Nil: "trim [] = []"
  by (simp add: trim_def)

lemma insert_arg_strings:
  assumes "sender b = JStr s" and "receiver b = JStr r"
    and "message b = JStr m \<or> message b = JUndefined \<and> m = []"
  shows "insert_arg i b = Some \<lparr>new_id = i, new_sender = trim s, new_receiver = trim r,
            new_message = trim m,
            new_day_index = (if day_index b \<noteq> JUndefined then parseInt (day_index b) else Num 0)\<rparr>"
  using assms by (auto simp: insert_arg_def trim_Nil)

lemma create_valid_strings:
  assumes "req_method req = ''POST''" and "req_body req = Some b"
    and "sender b = JStr s" and "s \<noteq> []" and "length s \<le> MAX_NAME_LENGTH"
    and "receiver b = JStr r" and "r \<noteq> []" and "length r \<le> MAX_NAME_LENGTH"
    and "message b = JStr m \<or> message b = JUndefined \<and> m = []"
    and "length m \<le> MAX_MESSAGE_LENGTH"
    and "insert_arg (nanoid e) b = Some row"
  shows "create_handler e req st =
     (case db_insert e st row of
        Inl dbError \<Rightarrow> reply 500 (ErrorMessage ''Database error'' ''Failed to save greeting'') st [Insert row]
      | Inr st' \<Rightarrow> reply 201 (Created (nanoid e) (share_url req (nanoid e))) st' [Insert row])"
  using assms
  by (auto simp: create_handler_def Let_def)

text \<open>What a 201 tells: the row went into a store that did not hold its key.\<close>

lemma create_Created:
  assumes c: "json (resp (create_handler e req st)) = Created i u"
  shows "\<exists>b row. req_method req = ''POST'' \<and> req_body req = Some b \<and> i = nanoid e
           \<and> insert_arg i b = Some row \<and> db_up e \<and> st i = None
           \<and> truthy (sender b) \<and> truthy (receiver b)
           \<and> status (resp (create_handler e req st)) = 201
           \<and> db_log (create_handler e req st) = [Insert row]
           \<and> store_after (create_handler e req st) =
               st(i \<mapsto> \<lparr>row_sender = new_sender row, row_receiver = new_receiver row,
                        row_message = new_message row, row_day_index = new_day_index row,
                        created_at = now e\<rparr>)"
proof -
  have m: "req_method req = ''POST''"
    using c by (auto simp: create_handler_def reply_simps split: if_splits)
  obtain b where b: "req_body req = Some b"
    using c m by (cases "req_body req") (auto simp: create_handler_def reply_simps server_error_def)
  have v: "truthy (sender b)" "truthy (receiver b)"
      "\<not> length_gt (sender b) MAX_NAME_LENGTH" "\<not> length_gt (receiver b) MAX_NAME_LENGTH"
      "\<not> (truthy (message b) \<and> length_gt (message b) MAX_MESSAGE_LENGTH)"
    using c m b by (auto simp: create_handler_def reply_simps split: if_splits)
  have h: "create_handler e req st =
      (case insert_arg (nanoid e) b of
         None \<Rightarrow> server_error st
       | Some r \<Rightarrow>
          (case db_insert e st r of
             Inl dbError \<Rightarrow> reply 500 (ErrorMessage ''Database error'' ''Failed to save greeting'') st [Insert r]
           | Inr st' \<Rightarrow> reply 201 (Created (nanoid e) (share_url req (nanoid e))) st' [Insert r]))"
    using m b v by (auto simp: create_handler_def Let_def)
  obtain row where row: "insert_arg (nanoid e) b = Some row"
    using c h by (cases "insert_arg (nanoid e) b") (auto simp: reply_simps server_error_def)
  have idr: "new_id row = nanoid e"
    using row by (auto simp: insert_arg_def split: Option.bind_splits)
  obtain st' where ins: "db_insert e st row = Inr st'"
    using c h row by (cases "db_insert e st row") (auto simp: reply_simps)
  have i: "i = nanoid e"
    using c h row ins by (simp add: reply_simps)
  have up: "db_up e" and fresh: "st (nanoid e) = None"
    and st': "st' = st(nanoid e \<mapsto> \<lparr>row_sender = new_sender row, row_receiver = new_receiver row,
                        row_message = new_message row, row_day_index = new_day_index row,
                        created_at = now e\<rparr>)"
    using ins idr by (auto simp: db_insert_def split: if_splits)
  show ?thesis
    using m b v row ins i up fresh st' h by (simp add: reply_simps)
qed

lemma nanoid_ok_regex: "nanoid_ok i \<Longrightarrow> id_regex_test i"
  by (auto simp: nanoid_ok_def id_regex_test_def ID_LENGTH_def)

lemma id_regex_test_bad_char:
  assumes "c \<in> set i" and "\<not> is_id_char c"
  shows "\<not> id_regex_test i"
  using assms by (auto simp: id_regex_test_def list_all_iff)

lemma get_stored:
  assumes "req_method greq = ''GET''" and "query_id greq = Some i" and "id_regex_test i"
    and "db_up e'" and "st i = Some g"
  shows "resp (get_handler e' greq st) =
           \<lparr>status = 200, json = Data g,
            cache_control = Some ''s-maxage=3600, stale-while-revalidate''\<rparr>"
  using assms by (auto simp: get_handler_def db_select_single_def id_regex_test_def)


text \<open>A string with no white space at either end is its own trim.\<close>

lemma trim_unpadded:
  assumes "s \<noteq> []" and "\<not> is_ws (hd s)" and "\<not> is_ws (last s)"
  shows "trim s = s"
proof -
  from assms(1,2) have front: "dropWhile is_ws s = s"
    by (cases s) simp_all
  from assms(1,3) have "dropWhile is_ws (rev s) = rev s"
    by (cases "rev s") (simp_all add: hd_rev [symmetric])
  with front show ?thesis by (simp add: trim_def)
qed

subsection \<open>parseInt and the doubles\<close>

text \<open>
  Sixteen digits can already exceed the 53 binary digits of a double: the result is
  the nearest double, a tie going to the even mantissa. A prefix \<open>0x\<close> selects radix 16,
  and the run of digits ends at the first character that is no digit.
\<close>

lemma parseInt_rounds:
  "parseInt (JStr (ustr ''9007199254740993'')) = Num 9007199254740992"
  "parseInt (JStr (ustr ''-9007199254740995'')) = Num (- 9007199254740996)"
  "parseInt (JStr (ustr ''  0x1F rest'')) = Num 31"
  "parseInt (JStr (ustr ''12abc'')) = Num 12"
  "parseInt (JStr (ustr ''abc'')) = NaN"
  by (simp_all add: parseInt_string_def ustr_def is_ws_def is_digit_def digit_val_def
      digits_value_def to_number_def Let_def)

lemma bit_length_upper: "n < 2 ^ bit_length n"
proof (induction n rule: bit_length.induct)
  case (1 n)
  show ?case
  proof (cases "n = 0")
    case True
    then show ?thesis by simp
  next
    case False
    with 1 have "n div 2 < 2 ^ bit_length (n div 2)" by simp
    then have "n < 2 * 2 ^ bit_length (n div 2)" by linarith
    moreover have "bit_length n = Suc (bit_length (n div 2))"
      using False by (subst bit_length.simps) simp
    ultimately show ?thesis by simp
  qed
qed

lemma bit_length_lower: "n \<noteq> 0 \<Longrightarrow> 2 ^ (bit_length n - 1) \<le> n"
proof (induction n rule: bit_length.induct)
  case (1 n)
  from 1(2) have bl: "bit_length n = Suc (bit_length (n div 2))"
    by (subst bit_length.simps) simp
  show ?case
  proof (cases "n div 2 = 0")
    case True
    then have "bit_length (n div 2) = 0" by simp
    with bl 1(2) show ?thesis by simp
  next
    case False
    with 1 have ih: "2 ^ (bit_length (n div 2) - 1) \<le> n div 2" by simp
    from False have "bit_length (n div 2) \<noteq> 0"
      by (subst bit_length.simps) simp
    then obtain k where k: "bit_length (n div 2) = Suc k" by (cases "bit_length (n div 2)") auto
    with ih have "2 ^ k \<le> n div 2" by simp
    then have "2 * 2 ^ k \<le> n" by linarith
    with bl k show ?thesis by simp
  qed
qed

lemma to_number_overflow:
  assumes "2 ^ 1024 \<le> n"
  shows "to_number n = None"
proof -
  define b where "b = bit_length n"
  have "n < 2 ^ b" unfolding b_def by (rule bit_length_upper)
  with assms have "(2::nat) ^ 1024 < 2 ^ b" by linarith
  moreover have "(1::nat) < 2" by simp
  ultimately have b: "1024 < b" by (simp only: power_strict_increasing_iff)
  have n0: "n \<noteq> 0" using assms by auto
  define e where "e = b - 53"
  have be: "b - 1 = 52 + e" using b by (simp add: e_def)
  have low: "2 ^ (b - 1) \<le> n" unfolding b_def using n0 by (rule bit_length_lower)
  have "(2::nat) ^ (b - 1) = 2 ^ 52 * 2 ^ e" by (simp only: be power_add)
  with low have "2 ^ 52 * 2 ^ e \<le> n" by (simp only:)
  then have q: "2 ^ 52 \<le> n div 2 ^ e"
    by (simp add: less_eq_div_iff_mult_less_eq)
  define q' where "q' = (if 2 ^ (e - 1) < n mod 2 ^ e \<or> (n mod 2 ^ e = 2 ^ (e - 1) \<and> odd (n div 2 ^ e))
                         then n div 2 ^ e + 1 else n div 2 ^ e)"
  have "2 ^ 52 \<le> q'" using q by (simp add: q'_def)
  then have "2 ^ 52 * 2 ^ e \<le> q' * 2 ^ e" by simp
  moreover have "(2::nat) ^ 1024 \<le> 2 ^ 52 * 2 ^ e"
  proof -
    have "1024 \<le> 52 + e" using b be by linarith
    then have "(2::nat) ^ 1024 \<le> 2 ^ (52 + e)" by (rule power_increasing) simp
    then show ?thesis by (simp add: power_add)
  qed
  ultimately have v: "2 ^ 1024 \<le> q' * 2 ^ e" by linarith
  have "\<not> b \<le> 53" using b by simp
  then show ?thesis
    using v unfolding to_number_def Let_def b_def[symmetric] e_def[symmetric] q'_def[symmetric]
    by simp
qed


lemma digits_value_nines_aux:
  "foldl (\<lambda>acc c. acc * 10 + (case digit_val c of None \<Rightarrow> 0 | Some d \<Rightarrow> d)) a (replicate k 0x39) + 1
     = (a + 1) * 10 ^ k"
proof (induction k arbitrary: a)
  case 0
  show ?case by simp
next
  case (Suc k)
  have d: "digit_val 0x39 = Some 9" by (simp add: digit_val_def)
  have "foldl (\<lambda>acc c. acc * 10 + (case digit_val c of None \<Rightarrow> 0 | Some d \<Rightarrow> d)) a
          (replicate (Suc k) 0x39) + 1
        = foldl (\<lambda>acc c. acc * 10 + (case digit_val c of None \<Rightarrow> 0 | Some d \<Rightarrow> d)) (a * 10 + 9)
          (replicate k 0x39) + 1"
    by (simp add: d)
  also have "\<dots> = (a * 10 + 9 + 1) * 10 ^ k" by (rule Suc.IH)
  also have "\<dots> = (a + 1) * 10 ^ Suc k" by (simp add: algebra_simps)
  finally show ?case .
qed

lemma digits_value_nines: "digits_value 10 (replicate k 0x39) + 1 = 10 ^ k"
  using digits_value_nines_aux[of 0 k] by (simp add: digits_value_def)

text \<open>A run of 309 nines or more is read as Infinity.\<close>

lemma parseInt_nines_Infinity:
  assumes "309 \<le> k"
  shows "parseInt (JStr (replicate k 0x39)) = PosInfinity"
proof -
  have ws: "\<not> is_ws 0x39" by (simp add: is_ws_def)
  have dg: "is_digit 10 0x39" by (simp add: is_digit_def digit_val_def)
  define j where "j = k - 2"
  have k: "k = Suc (Suc j)" using assms by (simp add: j_def)
  have "(2::nat) ^ 1024 + 1 \<le> 10 ^ 309" by simp
  also have "\<dots> \<le> 10 ^ k" using assms by (intro power_increasing) simp_all
  finally have "2 ^ 1024 \<le> digits_value 10 (replicate k 0x39)"
    using digits_value_nines[of k] by linarith
  then have ov: "to_number (digits_value 10 (replicate k 0x39)) = None"
    by (rule to_number_overflow)
  have "parseInt_string (replicate k 0x39) = PosInfinity"
    unfolding parseInt_string_def
    using ov ws dg by (simp add: k Let_def)
  then show ?thesis by simp
qed

subsection \<open>Round trip\<close>

text \<open>
  C1 (as amended). A create request with a non-empty sender and receiver of at most 100
  code units and a message of at most 500 (or none) that is answered with an
  identifier, followed by a get of that identifier on a store that answers, returns
  status 200 with the sender, the receiver and the message trimmed of white space at
  both ends (an absent message as the empty string). By \<open>trim_unpadded\<close> these are the
  supplied values when those carry no white space at their ends.
\<close>

theorem create_then_get_trimmed:
  assumes "req_method req = ''POST''" and "req_body req = Some b"
    and "sender b = JStr s" and "s \<noteq> []" and "length s \<le> MAX_NAME_LENGTH"
    and "receiver b = JStr r" and "r \<noteq> []" and "length r \<le> MAX_NAME_LENGTH"
    and "message b = JStr m \<or> message b = JUndefined \<and> m = []"
    and "length m \<le> MAX_MESSAGE_LENGTH"
    and "nanoid_ok (nanoid e)"
    and "json (resp (create_handler e req st)) = Created i u"
    and "req_method greq = ''GET''" and "query_id greq = Some i" and "db_up e'"
  shows "status (resp (get_handler e' greq (store_after (create_handler e req st)))) = 200
       \<and> json (resp (get_handler e' greq (store_after (create_handler e req st)))) =
           Data \<lparr>row_sender = trim s, row_receiver = trim r, row_message = trim m,
                 row_day_index = (if day_index b \<noteq> JUndefined then parseInt (day_index b) else Num 0),
                 created_at = now e\<rparr>"
proof -
  from create_Created[OF assms(12)] obtain b' row where
    c: "req_body req = Some b'" "i = nanoid e" "insert_arg i b' = Some row"
       "store_after (create_handler e req st) =
               st(i \<mapsto> \<lparr>row_sender = new_sender row, row_receiver = new_receiver row,
                        row_message = new_message row, row_day_index = new_day_index row,
                        created_at = now e\<rparr>)"
    by blast
  have b': "b' = b" using c(1) assms(2) by simp
  have row: "row = \<lparr>new_id = i, new_sender = trim s, new_receiver = trim r,
            new_message = trim m,
            new_day_index = (if day_index b \<noteq> JUndefined then parseInt (day_index b) else Num 0)\<rparr>"
    using insert_arg_strings[OF assms(3,6,9), of i] c(3) b' by simp
  have ok: "id_regex_test i" using assms(11) c(2) by (simp add: nanoid_ok_regex)
  have stored: "store_after (create_handler e req st) i =
      Some \<lparr>row_sender = trim s, row_receiver = trim r, row_message = trim m,
                 row_day_index = (if day_index b \<noteq> JUndefined then parseInt (day_index b) else Num 0),
                 created_at = now e\<rparr>"
    by (simp add: c(4) row)
  show ?thesis
    using get_stored[where st = "store_after (create_handler e req st)",
        OF assms(13,14) ok assms(15) stored]
    by simp
qed

theorem create_then_get_trimmed_witness:
  "sender padded_body = JStr (ustr '' Ann'') \<and> receiver padded_body = JStr (ustr ''Bob'')
   \<and> message padded_body = JStr (ustr ''hello'')
   \<and> nanoid_ok (nanoid demo_env)
   \<and> json (resp (create_handler demo_env (post_request padded_body) Map.empty))
       = Created (ustr ''V1StGXR8'') (ustr ''https://example.com/?id=V1StGXR8'')
   \<and> status (resp (get_handler later_env (get_request (Some (ustr ''V1StGXR8'')))
        (store_after (create_handler demo_env (post_request padded_body) Map.empty)))) = 200
   \<and> json (resp (get_handler later_env (get_request (Some (ustr ''V1StGXR8'')))
        (store_after (create_handler demo_env (post_request padded_body) Map.empty))))
       = Data \<lparr>row_sender = ustr ''Ann'', row_receiver = ustr ''Bob'',
               row_message = ustr ''hello'', row_day_index = Num 0, created_at = 0\<rparr>"
proof -
  have c: "json (resp (create_handler demo_env (post_request padded_body) Map.empty))
       = Created (ustr ''V1StGXR8'') (ustr ''https://example.com/?id=V1StGXR8'')"
    by (simp add: create_handler_def post_request_def padded_body_def
      demo_env_def insert_arg_def db_insert_def reply_def share_url_def
      is_ws_def trim_def ustr_def MAX_NAME_LENGTH_def MAX_MESSAGE_LENGTH_def Let_def)
  have n: "nanoid_ok (nanoid demo_env)"
    by (simp add: nanoid_ok_def demo_env_def ustr_def is_id_char_def ID_LENGTH_def)
  have t: "trim (ustr '' Ann'') = ustr ''Ann''" "trim (ustr ''Bob'') = ustr ''Bob''"
      "trim (ustr ''hello'') = ustr ''hello''"
    by (simp_all add: trim_def ustr_def is_ws_def)
  show ?thesis
    using create_then_get_trimmed [of "post_request padded_body" padded_body
        "ustr '' Ann''" "ustr ''Bob''" "ustr ''hello''" demo_env Map.empty
        "ustr ''V1StGXR8''" "ustr ''https://example.com/?id=V1StGXR8''"
        "get_request (Some (ustr ''V1StGXR8''))" later_env] c n t
    by (simp add: post_request_def get_request_def padded_body_def later_env_def demo_env_def
        MAX_NAME_LENGTH_def MAX_MESSAGE_LENGTH_def ustr_def)
qed

text \<open>
  The claim as stated fails: the sender \<open>" Ann"\<close> is within every bound, and the get
  after the create returns \<open>"Ann"\<close>.
\<close>

theorem create_then_get_not_identity:
  "status (resp (create_handler demo_env (post_request padded_body) Map.empty)) = 201
   \<and> json (resp (create_handler demo_env (post_request padded_body) Map.empty))
       = Created (ustr ''V1StGXR8'') (ustr ''https://example.com/?id=V1StGXR8'')
   \<and> json (resp (get_handler demo_env (get_request (Some (ustr ''V1StGXR8'')))
        (store_after (create_handler demo_env (post_request padded_body) Map.empty))))
       = Data \<lparr>row_sender = ustr ''Ann'', row_receiver = ustr ''Bob'', row_message = ustr ''hello'',
               row_day_index = Num 0, created_at = 0\<rparr>
   \<and> sender padded_body = JStr (ustr '' Ann'')
   \<and> ustr ''Ann'' \<noteq> ustr '' Ann''"
  by (simp add: create_handler_def get_handler_def post_request_def get_request_def padded_body_def
      demo_env_def insert_arg_def db_insert_def db_select_single_def reply_def share_url_def
      id_regex_test_def is_id_char_def is_ws_def trim_def ustr_def
      MAX_NAME_LENGTH_def MAX_MESSAGE_LENGTH_def Let_def)

subsection \<open>Validation of create\<close>

text \<open>
  C2 (the code at the failing input). The sender \<open>" "\<close> is truthy, so the check for
  required fields lets it through; the handler then stores its trim, the empty string,
  and answers 201.
\<close>

theorem create_blank_sender_persisted:
  "truthy (sender (names_body (JStr (ustr '' '')) (JStr (ustr ''Bob''))))
   \<and> status (resp (create_handler demo_env
         (post_request (names_body (JStr (ustr '' '')) (JStr (ustr ''Bob'')))) Map.empty)) = 201
   \<and> store_after (create_handler demo_env
         (post_request (names_body (JStr (ustr '' '')) (JStr (ustr ''Bob'')))) Map.empty)
         (ustr ''V1StGXR8'')
       = Some \<lparr>row_sender = [], row_receiver = ustr ''Bob'', row_message = [],
               row_day_index = Num 0, created_at = 0\<rparr>"
  by (simp add: create_handler_def post_request_def names_body_def
      demo_env_def insert_arg_def db_insert_def reply_def share_url_def
      is_ws_def trim_def ustr_def MAX_NAME_LENGTH_def MAX_MESSAGE_LENGTH_def Let_def)

theorem create_blank_sender_persisted_witness:
  "map_option row_sender
     (store_after (create_handler demo_env
         (post_request (names_body (JStr (ustr '' '')) (JStr (ustr ''Bob'')))) Map.empty)
         (ustr ''V1StGXR8'')) = Some []"
  using create_blank_sender_persisted by simp




text \<open>
  C4. With a valid sender and receiver, a message of 501 code units is answered with
  status 400 and nothing reaches the store; a message of exactly 500 passes validation:
  the answer is not a 400, the row is handed to the store, and the answer is 201
  whenever the store takes the row.
\<close>

theorem create_message_length_boundary:
  assumes "req_method req = ''POST''" and "req_body req = Some b"
    and "sender b = JStr s" and "s \<noteq> []" and "length s \<le> MAX_NAME_LENGTH"
    and "receiver b = JStr r" and "r \<noteq> []" and "length r \<le> MAX_NAME_LENGTH"
    and "message b = JStr m"
  shows "(length m = 501 \<longrightarrow>
            status (resp (create_handler e req st)) = 400
            \<and> store_after (create_handler e req st) = st
            \<and> db_log (create_handler e req st) = [])
       \<and> (length m = 500 \<longrightarrow>
            status (resp (create_handler e req st)) \<noteq> 400
            \<and> length (db_log (create_handler e req st)) = 1
            \<and> (db_up e \<and> st (nanoid e) = None \<longrightarrow>
                 status (resp (create_handler e req st)) = 201))"
proof (intro conjI impI)
  assume l: "length m = 501"
  then have "m \<noteq> []" by auto
  with assms l have "create_handler e req st = reply 400 (ErrorMessage ''Validation error''
                         ''Message must be 500 characters or less'') st []"
    by (simp add: create_handler_def MAX_NAME_LENGTH_def MAX_MESSAGE_LENGTH_def)
  then show "status (resp (create_handler e req st)) = 400"
    "store_after (create_handler e req st) = st" "db_log (create_handler e req st) = []"
    by (simp_all add: reply_simps)
next
  assume l: "length m = 500"
  define row where "row = \<lparr>new_id = nanoid e, new_sender = trim s, new_receiver = trim r,
            new_message = trim m,
            new_day_index = (if day_index b \<noteq> JUndefined then parseInt (day_index b) else Num 0)\<rparr>"
  have ia: "insert_arg (nanoid e) b = Some row"
    unfolding row_def using assms(3,6,9) by (intro insert_arg_strings) simp_all
  have h: "create_handler e req st =
     (case db_insert e st row of
        Inl dbError \<Rightarrow> reply 500 (ErrorMessage ''Database error'' ''Failed to save greeting'') st [Insert row]
      | Inr st' \<Rightarrow> reply 201 (Created (nanoid e) (share_url req (nanoid e))) st' [Insert row])"
  proof (rule create_valid_strings[OF assms(1-8) _ _ ia])
    show "message b = JStr m \<or> message b = JUndefined \<and> m = []" using assms(9) by simp
    show "length m \<le> MAX_MESSAGE_LENGTH" using l by (simp add: MAX_MESSAGE_LENGTH_def)
  qed
  show "status (resp (create_handler e req st)) \<noteq> 400"
    by (simp add: h reply_simps split: sum.splits)
  show "length (db_log (create_handler e req st)) = 1"
    by (simp add: h reply_simps split: sum.splits)
  show "status (resp (create_handler e req st)) = 201" if "db_up e \<and> st (nanoid e) = None"
    using that by (simp add: h reply_simps db_insert_def row_def)
qed

theorem create_message_length_boundary_witness:
  "req_method (post_request (message_body 501)) = ''POST''
   \<and> message (message_body 501) = JStr (replicate 501 0x61)
   \<and> status (resp (create_handler demo_env (post_request (message_body 501)) Map.empty)) = 400
   \<and> db_log (create_handler demo_env (post_request (message_body 501)) Map.empty) = []
   \<and> message (message_body 500) = JStr (replicate 500 0x61)
   \<and> db_up demo_env
   \<and> status (resp (create_handler demo_env (post_request (message_body 500)) Map.empty)) = 201"
  using create_message_length_boundary [of "post_request (message_body 501)" "message_body 501"
      "ustr ''Ann''" "ustr ''Bob''" "replicate 501 0x61" demo_env Map.empty]
    create_message_length_boundary [of "post_request (message_body 500)" "message_body 500"
      "ustr ''Ann''" "ustr ''Bob''" "replicate 500 0x61" demo_env Map.empty]
  by (simp add: post_request_def message_body_def demo_env_def MAX_NAME_LENGTH_def ustr_def)

subsection \<open>Validation and lookup of get\<close>

text \<open>The handler's pattern allows the underscore besides the letters, digits and dash.\<close>

lemma is_id_char_underscore: "is_id_char c = (alphanumeric_or_dash c \<or> c = 0x5F)"
  by (auto simp: is_id_char_def alphanumeric_or_dash_def)

text \<open>
  C5 (as amended). A GET whose identifier is missing, or holds a character outside the
  set of letters, digits, underscore and dash, is answered with status 400; no call to
  the store is made. A space and a slash are outside the set.
\<close>

theorem get_malformed_id_400:
  assumes "req_method req = ''GET''"
    and "query_id req = None \<or> query_id req = Some i \<and> c \<in> set i \<and> \<not> is_id_char c"
  shows "status (resp (get_handler e req st)) = 400
       \<and> db_log (get_handler e req st) = []
       \<and> store_after (get_handler e req st) = st
       \<and> \<not> is_id_char 0x20 \<and> \<not> is_id_char 0x2F"
proof -
  have chars: "\<not> is_id_char 0x20 \<and> \<not> is_id_char 0x2F"
    by (simp add: is_id_char_def)
  from assms(2) show ?thesis
  proof
    assume "query_id req = None"
    with assms(1) chars show ?thesis by (simp add: get_handler_def reply_simps)
  next
    assume a: "query_id req = Some i \<and> c \<in> set i \<and> \<not> is_id_char c"
    then have "\<not> id_regex_test i" using id_regex_test_bad_char[of c i] by simp
    with assms(1) a chars show ?thesis by (simp add: get_handler_def reply_simps)
  qed
qed

theorem get_malformed_id_400_witness:
  "req_method (get_request (Some (ustr ''ab cd''))) = ''GET''
   \<and> (0x20 :: jschar) \<in> set (ustr ''ab cd'')
   \<and> status (resp (get_handler demo_env (get_request (Some (ustr ''ab cd''))) [ustr ''ab cd'' \<mapsto> ann_row])) = 400
   \<and> db_log (get_handler demo_env (get_request (Some (ustr ''ab cd''))) [ustr ''ab cd'' \<mapsto> ann_row]) = []
   \<and> (0x2F :: jschar) \<in> set (ustr ''ab/cd'')
   \<and> status (resp (get_handler demo_env (get_request (Some (ustr ''ab/cd''))) Map.empty)) = 400
   \<and> status (resp (get_handler demo_env (get_request None) Map.empty)) = 400
   \<and> db_log (get_handler demo_env (get_request None) Map.empty) = []"
  using get_malformed_id_400 [of "get_request (Some (ustr ''ab cd''))" "ustr ''ab cd''" "0x20"
      demo_env "[ustr ''ab cd'' \<mapsto> ann_row]"]
    get_malformed_id_400 [of "get_request (Some (ustr ''ab/cd''))" "ustr ''ab/cd''" "0x2F"
      demo_env Map.empty]
    get_malformed_id_400 [of "get_request None" "[]" "0" demo_env Map.empty]
  by (simp add: get_request_def ustr_def)

text \<open>
  The claim as stated fails for the underscore, which is neither alphanumeric nor a
  dash: the identifier \<open>ab_cd\<close> passes the pattern, the store is queried, and the
  answer is 404.
\<close>

theorem get_underscore_id_looked_up:
  "(0x5F :: jschar) \<in> set (ustr ''ab_cd'') \<and> \<not> alphanumeric_or_dash 0x5F
   \<and> status (resp (get_handler demo_env (get_request (Some (ustr ''ab_cd''))) Map.empty)) = 404
   \<and> db_log (get_handler demo_env (get_request (Some (ustr ''ab_cd''))) Map.empty)
       = [Select (ustr ''ab_cd'')]"
  by (simp add: get_handler_def get_request_def db_select_single_def demo_env_def reply_def
      id_regex_test_def is_id_char_def alphanumeric_or_dash_def ustr_def)

text \<open>
  C6. A GET with a well-formed identifier, on a store that answers the query, returns
  status 404 when no greeting is stored under the identifier, and status 200 with the
  stored row (sender, receiver, message, day_index, created_at) when one is.
\<close>

theorem get_absent_404_present_200:
  assumes "req_method req = ''GET''" and "query_id req = Some i" and "id_regex_test i"
    and "db_up e"
  shows "(st i = None \<longrightarrow> status (resp (get_handler e req st)) = 404)
       \<and> (\<forall>g. st i = Some g \<longrightarrow>
             status (resp (get_handler e req st)) = 200
             \<and> json (resp (get_handler e req st)) = Data g)"
  using assms
  by (auto simp: get_handler_def db_select_single_def reply_simps id_regex_test_def)

theorem get_absent_404_present_200_witness:
  "req_method (get_request (Some (ustr ''V1StGXR8''))) = ''GET''
   \<and> id_regex_test (ustr ''V1StGXR8'') \<and> db_up demo_env
   \<and> status (resp (get_handler demo_env (get_request (Some (ustr ''V1StGXR8''))) Map.empty)) = 404
   \<and> status (resp (get_handler demo_env (get_request (Some (ustr ''V1StGXR8'')))
        [ustr ''V1StGXR8'' \<mapsto> ann_row])) = 200
   \<and> json (resp (get_handler demo_env (get_request (Some (ustr ''V1StGXR8'')))
        [ustr ''V1StGXR8'' \<mapsto> ann_row])) = Data ann_row"
proof -
  have ok: "id_regex_test (ustr ''V1StGXR8'')"
    by (simp add: id_regex_test_def is_id_char_def ustr_def)
  show ?thesis
    using ok
      get_absent_404_present_200 [of "get_request (Some (ustr ''V1StGXR8''))" "ustr ''V1StGXR8''"
        demo_env Map.empty]
      get_absent_404_present_200 [of "get_request (Some (ustr ''V1StGXR8''))" "ustr ''V1StGXR8''"
        demo_env "[ustr ''V1StGXR8'' \<mapsto> ann_row]"]
    by (simp add: get_request_def demo_env_def)
qed

subsection \<open>Identifiers\<close>

text \<open>
  C7. When a create is answered with an identifier and a second create, run on the
  store the first one left, is answered with an identifier too, the two identifiers
  differ: the table's primary key refuses the second row otherwise.
\<close>

theorem sequential_creates_distinct_ids:
  assumes "json (resp (create_handler e1 req1 st)) = Created i1 u1"
    and "json (resp (create_handler e2 req2 (store_after (create_handler e1 req1 st))))
           = Created i2 u2"
  shows "i1 \<noteq> i2"
proof -
  from create_Created[OF assms(1)]
  have "store_after (create_handler e1 req1 st) i1 \<noteq> None" by auto
  moreover from create_Created[OF assms(2)]
  have "store_after (create_handler e1 req1 st) i2 = None" by auto
  ultimately show ?thesis by auto
qed

theorem sequential_creates_distinct_ids_witness:
  "json (resp (create_handler demo_env (post_request padded_body) Map.empty))
       = Created (ustr ''V1StGXR8'') (ustr ''https://example.com/?id=V1StGXR8'')
   \<and> json (resp (create_handler later_env (post_request null_day_body)
         (store_after (create_handler demo_env (post_request padded_body) Map.empty))))
       = Created (ustr ''x_9-Kq2Z'') (ustr ''https://example.com/?id=x_9-Kq2Z'')
   \<and> ustr ''V1StGXR8'' \<noteq> ustr ''x_9-Kq2Z''"
proof -
  have c1: "json (resp (create_handler demo_env (post_request padded_body) Map.empty))
       = Created (ustr ''V1StGXR8'') (ustr ''https://example.com/?id=V1StGXR8'')"
    by (simp add: create_handler_def post_request_def padded_body_def
      demo_env_def insert_arg_def db_insert_def reply_def share_url_def
      is_ws_def trim_def ustr_def MAX_NAME_LENGTH_def MAX_MESSAGE_LENGTH_def Let_def)
  have c2: "json (resp (create_handler later_env (post_request null_day_body)
         (store_after (create_handler demo_env (post_request padded_body) Map.empty))))
       = Created (ustr ''x_9-Kq2Z'') (ustr ''https://example.com/?id=x_9-Kq2Z'')"
    by (simp add: create_handler_def post_request_def padded_body_def null_day_body_def
      demo_env_def later_env_def insert_arg_def db_insert_def reply_def share_url_def
      is_ws_def trim_def ustr_def MAX_NAME_LENGTH_def MAX_MESSAGE_LENGTH_def Let_def)
  from sequential_creates_distinct_ids [OF c1 c2] c1 c2 show ?thesis by simp
qed

subsection \<open>Methods\<close>

text \<open>
  C9. A request to the create handler whose method is not POST, and a request to the
  get handler whose method is not GET, is answered with status 405; the store is left
  as it was and no call to the store is made.
\<close>

theorem wrong_method_405:
  "(req_method req \<noteq> ''POST'' \<longrightarrow>
      status (resp (create_handler e req st)) = 405
      \<and> store_after (create_handler e req st) = st \<and> db_log (create_handler e req st) = [])
 \<and> (req_method req \<noteq> ''GET'' \<longrightarrow>
      status (resp (get_handler e req st)) = 405
      \<and> store_after (get_handler e req st) = st \<and> db_log (get_handler e req st) = [])"
  by (simp add: create_handler_def get_handler_def reply_simps)

theorem wrong_method_405_witness:
  "req_method (get_request (Some (ustr ''V1StGXR8''))) \<noteq> ''POST''
   \<and> status (resp (create_handler demo_env (get_request (Some (ustr ''V1StGXR8''))) Map.empty)) = 405
   \<and> db_log (create_handler demo_env (get_request (Some (ustr ''V1StGXR8''))) Map.empty) = []
   \<and> req_method (post_request padded_body) \<noteq> ''GET''
   \<and> status (resp (get_handler demo_env (post_request padded_body) [ustr ''V1StGXR8'' \<mapsto> ann_row])) = 405
   \<and> store_after (get_handler demo_env (post_request padded_body) [ustr ''V1StGXR8'' \<mapsto> ann_row])
       = [ustr ''V1StGXR8'' \<mapsto> ann_row]
   \<and> db_log (get_handler demo_env (post_request padded_body) [ustr ''V1StGXR8'' \<mapsto> ann_row]) = []"
  using wrong_method_405 [of "get_request (Some (ustr ''V1StGXR8''))" demo_env Map.empty]
    wrong_method_405 [of "post_request padded_body" demo_env "[ustr ''V1StGXR8'' \<mapsto> ann_row]"]
  by (simp add: post_request_def get_request_def)

subsection \<open>Defaults\<close>




section \<open>Properties of the frontend loader\<close>

lemma fetchGreeting_fails:
  "fetchGreeting NetworkError = None"
  "\<not> response_ok s \<Longrightarrow> fetchGreeting (HttpResponse s p) = None"
  by (simp_all add: fetchGreeting_def)

text \<open>
  C8 (as amended). On a page with the creation form that is not opened from the file
  system and has no timer pending: when the URL carries no identifier (or an empty one)
  the loader shows the creation form once its timer has fired, and does nothing else;
  when the URL carries an identifier and the fetch fails (the request is rejected, or
  the answer has a status outside 200 to 299, 404 among them) the loader hides the form
  and does nothing else: it populates nothing, raises no alert and sets no timer, so
  the page keeps its default content.
\<close>

theorem form_shown_without_id_hidden_on_failed_fetch:
  assumes "protocol br \<noteq> ''file:''" and "form_present pg" and "timers pg = []"
  shows "(id_param br = None \<or> id_param br = Some [] \<longrightarrow>
            page_load br pg = showCreateForm pg
            \<and> form_shown (page_load br pg) \<and> modal_open (page_load br pg))
       \<and> (id_param br = Some i \<and> i \<noteq> []
            \<and> (fetched br = NetworkError \<or> fetched br = HttpResponse s p \<and> \<not> response_ok s) \<longrightarrow>
            page_load br pg = hideCreateForm pg
            \<and> page_load br pg = pg\<lparr>form_display := ''none'', modal_open := False\<rparr>
            \<and> form_display (page_load br pg) = ''none'' \<and> \<not> form_shown (page_load br pg)
            \<and> \<not> modal_open (page_load br pg)
            \<and> populated (page_load br pg) = populated pg
            \<and> day_content (page_load br pg) = day_content pg
            \<and> alerts (page_load br pg) = alerts pg
            \<and> timers (page_load br pg) = [])"
proof (intro conjI impI)
  assume a: "id_param br = None \<or> id_param br = Some []"
  then have "init br pg = pg\<lparr>timers := timers pg @ [(100, ShowCreateForm)]\<rparr>"
    using assms(1) by (auto simp: init_def)
  then have "page_load br pg = showCreateForm (pg\<lparr>timers := []\<rparr>)"
    using assms(3) by (simp add: page_load_def run_timers_def)
  moreover have "pg\<lparr>timers := []\<rparr> = pg"
    using assms(3) by simp
  ultimately show l: "page_load br pg = showCreateForm pg"
    by simp
  show "form_shown (page_load br pg)" "modal_open (page_load br pg)"
    using assms(2) by (simp_all add: l showCreateForm_def form_shown_def)
next
  assume a: "id_param br = Some i \<and> i \<noteq> []
            \<and> (fetched br = NetworkError \<or> fetched br = HttpResponse s p \<and> \<not> response_ok s)"
  then have f: "fetchGreeting (fetched br) = None"
    by (auto simp: fetchGreeting_fails)
  from a obtain c cs where i: "id_param br = Some (c # cs)"
    by (cases i) auto
  have "init br pg = hideCreateForm pg"
    using assms(1) i f by (simp add: init_def)
  then have "page_load br pg = (hideCreateForm pg)\<lparr>timers := []\<rparr>"
    using assms(3) by (simp add: page_load_def run_timers_def hideCreateForm_def)
  moreover have "(hideCreateForm pg)\<lparr>timers := []\<rparr> = hideCreateForm pg"
    using assms(3) by (simp add: hideCreateForm_def)
  ultimately show l: "page_load br pg = hideCreateForm pg"
    by simp
  show "page_load br pg = pg\<lparr>form_display := ''none'', modal_open := False\<rparr>"
    using assms(2) by (simp add: l hideCreateForm_def)
  show "form_display (page_load br pg) = ''none''" "\<not> form_shown (page_load br pg)"
    "\<not> modal_open (page_load br pg)" "populated (page_load br pg) = populated pg"
    "day_content (page_load br pg) = day_content pg" "alerts (page_load br pg) = alerts pg"
    "timers (page_load br pg) = []"
    using assms(2,3) by (simp_all add: l hideCreateForm_def form_shown_def)
qed

theorem form_shown_without_id_hidden_on_failed_fetch_witness:
  "protocol (plain_browser ''https:'' None NetworkError) \<noteq> ''file:''
   \<and> form_present blank_page \<and> timers blank_page = []
   \<and> form_shown (page_load (plain_browser ''https:'' None NetworkError) blank_page)
   \<and> \<not> response_ok 500
   \<and> form_display (page_load (plain_browser ''https:'' (Some (ustr ''V1StGXR8''))
         (HttpResponse 500 InvalidJson)) blank_page) = ''none''
   \<and> \<not> form_shown (page_load (plain_browser ''https:'' (Some (ustr ''V1StGXR8''))
         (HttpResponse 500 InvalidJson)) blank_page)
   \<and> page_load (plain_browser ''https:'' (Some (ustr ''V1StGXR8''))
         (HttpResponse 500 InvalidJson)) blank_page
       = blank_page\<lparr>form_display := ''none'', modal_open := False\<rparr>"
  using form_shown_without_id_hidden_on_failed_fetch
      [of "plain_browser ''https:'' None NetworkError" blank_page "[]" 0 InvalidJson]
    form_shown_without_id_hidden_on_failed_fetch
      [of "plain_browser ''https:'' (Some (ustr ''V1StGXR8'')) (HttpResponse 500 InvalidJson)"
        blank_page "ustr ''V1StGXR8''" 500 InvalidJson]
  by (simp add: plain_browser_def blank_page_def response_ok_def ustr_def
      showCreateForm_def hideCreateForm_def form_shown_def)

text \<open>
  The claim as stated fails where the fetch fails: after a rejected fetch, a 404 and a
  500 the form is hidden, not shown. Opened from the file system, the page raises an
  alert and shows no form even without an identifier.
\<close>

theorem failed_fetch_leaves_form_hidden:
  "\<not> form_shown (page_load (plain_browser ''https:'' (Some (ustr ''V1StGXR8'')) NetworkError) blank_page)
   \<and> form_display (page_load (plain_browser ''https:'' (Some (ustr ''V1StGXR8'')) NetworkError) blank_page) = ''none''
   \<and> form_display (page_load (plain_browser ''https:'' (Some (ustr ''V1StGXR8''))
         (HttpResponse 404 InvalidJson)) blank_page) = ''none''
   \<and> form_display (page_load (plain_browser ''https:'' (Some (ustr ''V1StGXR8''))
         (HttpResponse 500 InvalidJson)) blank_page) = ''none''
   \<and> \<not> form_shown (page_load (plain_browser ''file:'' None NetworkError) blank_page)
   \<and> alerts (page_load (plain_browser ''file:'' None NetworkError) blank_page) = 1"
  by (simp add: page_load_def init_def run_timers_def hideCreateForm_def showCreateForm_def
      form_shown_def plain_browser_def blank_page_def fetchGreeting_def response_ok_def ustr_def)

end
